theory Spec2Isabelle
  imports Main "HOL-Library.AList"
begin

section \<open>JavaScript strings, numbers and errors\<close>

text \<open>
  The plugin (\<^verbatim>\<open>src/main.ts\<close>) works on JavaScript strings. A string is modelled as a
  list of code units; \<^typ>\<open>char\<close> covers the code units below 256, which is where every
  character tested by the plugin's regular expressions and string patterns lies.
\<close>

definition is_digit :: "char \<Rightarrow> bool" where
  "is_digit c = (c \<in> set ''0123456789'')"

text \<open>The class \<^verbatim>\<open>\s\<close> (and the white space \<^verbatim>\<open>parseInt\<close> skips), below code unit 256:
  TAB, LF, VT, FF, CR, SP and NBSP.\<close>

definition is_space :: "char \<Rightarrow> bool" where
  "is_space c = (c \<in> set [CHR 0x09, CHR 0x0A, CHR 0x0B, CHR 0x0C, CHR 0x0D, CHR 0x20, CHR 0xA0])"

text \<open>A JavaScript number is \<^verbatim>\<open>NaN\<close> or, in this model, an integer (every number the plugin
  computes is an integer; it is exact as a double below \<open>2^53\<close>).\<close>

datatype jsnum = NaN | Num int

datatype js_error =
    TypeError string
  | SyntaxError string
  | RequestError string
  | VaultError string

fun show_nat :: "nat \<Rightarrow> string" where
  "show_nat n = (if n < 10 then [''0123456789'' ! n] else show_nat (n div 10) @ [''0123456789'' ! (n mod 10)])"

declare show_nat.simps [simp del]

definition number_to_string :: "jsnum \<Rightarrow> string" where
  "number_to_string x =
     (case x of NaN \<Rightarrow> ''NaN''
      | Num n \<Rightarrow> if n < 0 then CHR ''-'' # show_nat (nat (- n)) else show_nat (nat n))"

text \<open>\<^verbatim>\<open>Math.floor(x / d)\<close> and \<^verbatim>\<open>x % d\<close> for a positive integer divisor \<open>d\<close>: the quotient is
  rounded down, the remainder takes the sign of the dividend.\<close>

definition math_floor_div :: "jsnum \<Rightarrow> int \<Rightarrow> jsnum" where
  "math_floor_div x d = (case x of NaN \<Rightarrow> NaN | Num n \<Rightarrow> Num (n div d))"

definition js_rem :: "jsnum \<Rightarrow> int \<Rightarrow> jsnum" where
  "js_rem x d = (case x of NaN \<Rightarrow> NaN | Num n \<Rightarrow> Num (sgn n * (\<bar>n\<bar> mod \<bar>d\<bar>)))"

definition truthy_num :: "jsnum \<Rightarrow> bool" where
  "truthy_num x = (case x of NaN \<Rightarrow> False | Num n \<Rightarrow> n \<noteq> 0)"

definition digit_table :: "(char \<times> nat) list" where
  "digit_table =
     [(CHR ''0'', 0), (CHR ''1'', 1), (CHR ''2'', 2), (CHR ''3'', 3), (CHR ''4'', 4),
      (CHR ''5'', 5), (CHR ''6'', 6), (CHR ''7'', 7), (CHR ''8'', 8), (CHR ''9'', 9),
      (CHR ''a'', 10), (CHR ''b'', 11), (CHR ''c'', 12), (CHR ''d'', 13), (CHR ''e'', 14),
      (CHR ''f'', 15), (CHR ''A'', 10), (CHR ''B'', 11), (CHR ''C'', 12), (CHR ''D'', 13),
      (CHR ''E'', 14), (CHR ''F'', 15)]"

definition digit_in_radix :: "nat \<Rightarrow> char \<Rightarrow> bool" where
  "digit_in_radix r c = (case map_of digit_table c of None \<Rightarrow> False | Some v \<Rightarrow> v < r)"

definition digit_val :: "char \<Rightarrow> nat" where
  "digit_val c = (case map_of digit_table c of None \<Rightarrow> 0 | Some v \<Rightarrow> v)"

definition digits_value :: "nat \<Rightarrow> string \<Rightarrow> nat" where
  "digits_value r ds = foldl (\<lambda>a c. r * a + digit_val c) 0 ds"

text \<open>\<^verbatim>\<open>parseInt(s)\<close> with no radix argument: leading white space is skipped, a sign is read,
  a prefix \<^verbatim>\<open>0x\<close> or \<^verbatim>\<open>0X\<close> switches to radix 16, and the longest run of digits of the radix
  is the value; no digit at all gives \<^verbatim>\<open>NaN\<close>.\<close>

definition parseInt :: "string \<Rightarrow> jsnum" where
  "parseInt input =
     (let s = dropWhile is_space input;
          neg = (take 1 s = ''-'');
          s1 = (if take 1 s = ''-'' \<or> take 1 s = ''+'' then drop 1 s else s);
          hex = (take 2 s1 = ''0x'' \<or> take 2 s1 = ''0X'');
          radix = (if hex then 16 else 10);
          s2 = (if hex then drop 2 s1 else s1);
          z = takeWhile (digit_in_radix radix) s2
      in if z = [] then NaN
         else Num ((if neg then - 1 else 1) * int (digits_value radix z)))"

text \<open>\<^verbatim>\<open>s.split(" ")[0]\<close>: the text before the first space.\<close>

definition split_space_0 :: "string \<Rightarrow> string" where
  "split_space_0 s = takeWhile (\<lambda>c. c \<noteq> CHR '' '') s"

text \<open>A value that may be \<^verbatim>\<open>undefined\<close>, where JavaScript converts it to a string.\<close>

definition to_string :: "string option \<Rightarrow> string" where
  "to_string v = (case v of None \<Rightarrow> ''undefined'' | Some s \<Rightarrow> s)"

subsection \<open>Searching and replacing\<close>

text \<open>A matcher tries a pattern at the start of the text it is given and returns the matched
  text and the rest. \<open>search_first\<close> tries it at every position from the left, as
  \<^verbatim>\<open>String.prototype.replace\<close>, \<^verbatim>\<open>match\<close> and \<^verbatim>\<open>RegExp.prototype.test\<close> do; it returns the
  text before the match, the match, and the text after it.\<close>

type_synonym matcher = "string \<Rightarrow> (string \<times> string) option"

fun strip_prefix :: "string \<Rightarrow> string \<Rightarrow> string option" where
  "strip_prefix [] s = Some s"
| "strip_prefix (p # ps) [] = None"
| "strip_prefix (p # ps) (c # cs) = (if p = c then strip_prefix ps cs else None)"

definition match_literal :: "string \<Rightarrow> matcher" where
  "match_literal pat s = (case strip_prefix pat s of None \<Rightarrow> None | Some rest \<Rightarrow> Some (pat, rest))"

fun search_first :: "matcher \<Rightarrow> string \<Rightarrow> (string \<times> string \<times> string) option" where
  "search_first m [] = (case m [] of None \<Rightarrow> None | Some (mt, rest) \<Rightarrow> Some ([], mt, rest))"
| "search_first m (c # cs) =
     (case m (c # cs) of
        Some (mt, rest) \<Rightarrow> Some ([], mt, rest)
      | None \<Rightarrow> (case search_first m cs of
                   None \<Rightarrow> None
                 | Some (pre, mt, rest) \<Rightarrow> Some (c # pre, mt, rest)))"

definition regex_test :: "matcher \<Rightarrow> string \<Rightarrow> bool" where
  "regex_test m s = (search_first m s \<noteq> None)"

text \<open>The replacement text of \<^verbatim>\<open>replace\<close> is a template of its own (ECMAScript's
  GetSubstitution): \<^verbatim>\<open>$$\<close> is a dollar sign, \<^verbatim>\<open>$&\<close> the matched text, \<^verbatim>\<open>$`\<close> the text before the
  match and \<^verbatim>\<open>$'\<close> the text after it. The patterns used by the plugin with a non-empty
  replacement have no capture groups, so every other \<^verbatim>\<open>$\<close> stands for itself.\<close>

fun get_substitution :: "string \<Rightarrow> string \<Rightarrow> string \<Rightarrow> string \<Rightarrow> string" where
  "get_substitution mt pre post [] = []"
| "get_substitution mt pre post [c] = [c]"
| "get_substitution mt pre post (c # d # cs) =
     (if c = CHR ''$'' then
        (if d = CHR ''$'' then CHR ''$'' # get_substitution mt pre post cs
         else if d = CHR ''&'' then mt @ get_substitution mt pre post cs
         else if d = CHR 0x60 then pre @ get_substitution mt pre post cs
         else if d = CHR 0x27 then post @ get_substitution mt pre post cs
         else c # get_substitution mt pre post (d # cs))
      else c # get_substitution mt pre post (d # cs))"

text \<open>\<^verbatim>\<open>s.replace(pattern, replacement)\<close> for a pattern without the global flag: only the
  first match is replaced.\<close>

definition replace_first :: "matcher \<Rightarrow> string \<Rightarrow> string \<Rightarrow> string" where
  "replace_first m s repl =
     (case search_first m s of
        None \<Rightarrow> s
      | Some (pre, mt, post) \<Rightarrow> pre @ get_substitution mt pre post repl @ post)"

definition replace_str :: "string \<Rightarrow> string \<Rightarrow> string \<Rightarrow> string" where
  "replace_str s pat repl = replace_first (match_literal pat) s repl"

text \<open>\<^verbatim>\<open>s.replace(/[...]/g, replacement)\<close> for a character class with the global flag: every
  character of the class is replaced; \<open>seen\<close> is the text to the left of the position.\<close>

fun replace_global :: "(char \<Rightarrow> bool) \<Rightarrow> string \<Rightarrow> string \<Rightarrow> string \<Rightarrow> string" where
  "replace_global cls repl seen [] = []"
| "replace_global cls repl seen (c # cs) =
     (if cls c then get_substitution [c] seen cs repl else [c])
       @ replace_global cls repl (seen @ [c]) cs"

definition contains :: "string \<Rightarrow> string \<Rightarrow> bool" where
  "contains s pat = (search_first (match_literal pat) s \<noteq> None)"

section \<open>Settings and plugin state\<close>

record settings =
  omdbapikey :: string
  youtubeapikey :: string
  template :: string
  mainPath :: string
  assetPath :: string
  fileName :: string
  imageSize :: jsnum

definition extractMovieUrl :: string where
  "extractMovieUrl = ''https://www.omdbapi.com/?apikey={key}&''"

definition youtubeApiUrl_const :: string where
  "youtubeApiUrl_const =
     ''https://www.googleapis.com/youtube/v3/search?key={key}&type=video&maxResults=1&videoEmbeddable=true&q=''"

definition DEFAULT_SETTINGS :: settings where
  "DEFAULT_SETTINGS =
     \<lparr> omdbapikey = '''',
       youtubeapikey = '''',
       template = ''{{Poster}}'' @ [CHR 0x0A] @ ''**Length:** {{Runtime}}'' @ [CHR 0x0A]
         @ ''**Genre:** {{Genre}}'' @ [CHR 0x0A] @ ''**Actors:** {{Actors}}'' @ [CHR 0x0A]
         @ ''**Year:** {{Year}}'' @ [CHR 0x0A] @ ''**IMDB Score:** {{imdbRating}} ({{imdbVotes}})''
         @ [CHR 0x0A, CHR 0x0A] @ ''{{Plot}}'' @ [CHR 0x0A, CHR 0x0A] @ ''{{Trailer}}'',
       mainPath = ''movies'',
       assetPath = ''assets'',
       fileName = ''{{Title}}'',
       imageSize = Num 200 \<rparr>"

record plugin =
  settings :: settings
  youtubeApiUrl :: string
  omdbApiUrl :: string

definition updateKeys :: "plugin \<Rightarrow> plugin" where
  "updateKeys st =
     st\<lparr> omdbApiUrl := replace_str extractMovieUrl ''{key}'' (omdbapikey (settings st)),
         youtubeApiUrl := replace_str youtubeApiUrl_const ''{key}'' (youtubeapikey (settings st)) \<rparr>"

section \<open>The host: network, vault and notices\<close>

text \<open>
  A movie record is the object parsed from the metadata response: its own properties in
  enumeration order, each a string (the data model of the specification). The
  video-search response is modelled by the list of its items, each item by its
  \<^verbatim>\<open>id.videoId\<close>.
\<close>

type_synonym movie = "(string \<times> string) list"

datatype body = MovieBody movie | SearchBody "string list"

record response =
  json :: "js_error + body"
  arrayBuffer :: string

datatype http_result = Rejected js_error | Responded response

datatype notice = NText string | NError js_error

text \<open>
  The world holds what the host answers (\<open>http\<close> for \<^verbatim>\<open>requestUrl\<close>, \<open>create_error\<close> and
  \<open>create_binary_error\<close> for the vault) and what the plugin has done so far: the URLs
  requested, the notices shown, the notes and binary files created, the notes opened.
\<close>

record world =
  http :: "string \<Rightarrow> http_result"
  create_error :: "string \<Rightarrow> js_error option"
  create_binary_error :: "string \<Rightarrow> js_error option"
  fetched :: "string list"
  notices :: "notice list"
  created :: "(string \<times> string) list"
  binaries :: "(string \<times> string) list"
  opened :: "string list"

definition requestUrl :: "string \<Rightarrow> world \<Rightarrow> (js_error + response) \<times> world" where
  "requestUrl url w =
     (case http w url of
        Rejected e \<Rightarrow> (Inl e, w\<lparr>fetched := fetched w @ [url]\<rparr>)
      | Responded r \<Rightarrow> (Inr r, w\<lparr>fetched := fetched w @ [url]\<rparr>))"

definition new_Notice :: "notice \<Rightarrow> world \<Rightarrow> world" where
  "new_Notice n w = w\<lparr>notices := notices w @ [n]\<rparr>"

definition vault_create :: "string \<Rightarrow> string \<Rightarrow> world \<Rightarrow> (js_error + unit) \<times> world" where
  "vault_create path text w =
     (case create_error w path of
        Some e \<Rightarrow> (Inl e, w)
      | None \<Rightarrow> (Inr (), w\<lparr>created := created w @ [(path, text)]\<rparr>))"

definition vault_createBinary :: "string \<Rightarrow> string \<Rightarrow> world \<Rightarrow> (js_error + unit) \<times> world" where
  "vault_createBinary path buf w =
     (case create_binary_error w path of
        Some e \<Rightarrow> (Inl e, w)
      | None \<Rightarrow> (Inr (), w\<lparr>binaries := binaries w @ [(path, buf)]\<rparr>))"

definition openLinkText :: "string \<Rightarrow> string \<Rightarrow> world \<Rightarrow> world" where
  "openLinkText linktext sourcePath w = w\<lparr>opened := opened w @ [sourcePath]\<rparr>"

section \<open>The plugin\<close>

subsection \<open>addImageToAssets and getTrailerOnYoutube\<close>

text \<open>\<^verbatim>\<open>movie.Poster\<close> may be missing; \<^verbatim>\<open>requestUrl(undefined)\<close> is taken to reject before
  any request is sent.\<close>

definition addImageToAssets :: "plugin \<Rightarrow> string option \<Rightarrow> string \<Rightarrow> world \<Rightarrow> (js_error + unit) \<times> world" where
  "addImageToAssets st url file_name w =
     (let assetsPath = assetPath (settings st) in
      case url of
        None \<Rightarrow> (Inl (TypeError ''Cannot read properties of undefined''), w)
      | Some u \<Rightarrow>
          (case requestUrl u w of
             (Inl e, w1) \<Rightarrow> (Inl e, w1)
           | (Inr resp, w1) \<Rightarrow> vault_createBinary (assetsPath @ ''/'' @ file_name) (arrayBuffer resp) w1))"

definition getTrailerOnYoutube :: "plugin \<Rightarrow> string \<Rightarrow> world \<Rightarrow> (js_error + string) \<times> world" where
  "getTrailerOnYoutube st title w =
     (let url = youtubeApiUrl st @ title @ '' trailer'' in
      case requestUrl url w of
        (Inl e, w1) \<Rightarrow> (Inl e, w1)
      | (Inr resp, w1) \<Rightarrow>
          (case json resp of
             Inl e \<Rightarrow> (Inl e, w1)
           | Inr (MovieBody m) \<Rightarrow> (Inl (TypeError ''Cannot read properties of undefined''), w1)
           | Inr (SearchBody []) \<Rightarrow>
               (Inl (TypeError ''Cannot read properties of undefined (reading id)''), w1)
           | Inr (SearchBody (item # items)) \<Rightarrow> (Inr item, w1)))"

subsection \<open>formatter\<close>

text \<open>The loop over the record's own properties: every key but Poster, Trailer and Runtime
  replaces the first occurrence of its token with its value.\<close>

fun generic_pass :: "movie \<Rightarrow> string list \<Rightarrow> string \<Rightarrow> string" where
  "generic_pass data [] tmpl = tmpl"
| "generic_pass data (key # keys) tmpl =
     generic_pass data keys
       (if key \<noteq> ''Poster'' \<and> key \<noteq> ''Trailer'' \<and> key \<noteq> ''Runtime'' then
          replace_str tmpl (''{{'' @ key @ ''}}'') (to_string (map_of data key))
        else tmpl)"

definition format_runtime :: "movie \<Rightarrow> string \<Rightarrow> string" where
  "format_runtime data tmpl =
     (case map_of data ''Runtime'' of
        None \<Rightarrow> replace_str tmpl ''{{Runtime}}'' ''-''
      | Some r \<Rightarrow>
          if r \<noteq> [] \<and> r \<noteq> ''N/A'' then
            (let minute = parseInt (split_space_0 r);
                 hour = math_floor_div minute 60;
                 minuteLeft = js_rem minute 60
             in replace_str tmpl ''{{Runtime}}''
                  (number_to_string hour @ ''h '' @ number_to_string minuteLeft @ ''m''))
          else replace_str tmpl ''{{Runtime}}'' ''-'')"

definition format_poster :: "plugin \<Rightarrow> movie \<Rightarrow> string \<Rightarrow> string" where
  "format_poster st data tmpl =
     (case map_of data ''Poster'' of
        None \<Rightarrow> replace_str tmpl ''{{Poster}}'' ''-''
      | Some p \<Rightarrow>
          if p \<noteq> [] \<and> p \<noteq> ''N/A'' then
            (let file_name = replace_str (fileName (settings st)) ''{{Title}}''
                               (to_string (map_of data ''Title''));
                 image_size = (if truthy_num (imageSize (settings st))
                               then imageSize (settings st) else Num 200)
             in replace_str tmpl ''{{Poster}}''
                  (''![['' @ assetPath (settings st) @ ''/'' @ file_name @ ''.jpg|movie|''
                     @ number_to_string image_size @ '']]''))
          else replace_str tmpl ''{{Poster}}'' ''-'')"

definition trailer_iframe :: "string \<Rightarrow> string" where
  "trailer_iframe trailer =
     ''<iframe class=\"movie\" width=\"560\" height=\"315\" src=\"https://www.youtube.com/embed/''
     @ trailer
     @ ''\" title=\"YouTube video player\" frameborder=\"0\" allow=\"accelerometer; autoplay; clipboard-write; encrypted-media; gyroscope; picture-in-picture; web-share\" allowfullscreen></iframe>''"

definition format_trailer :: "plugin \<Rightarrow> movie \<Rightarrow> string \<Rightarrow> world \<Rightarrow> (js_error + string) \<times> world" where
  "format_trailer st data tmpl w =
     (if youtubeapikey (settings st) \<noteq> [] then
        (case getTrailerOnYoutube st (to_string (map_of data ''Title'')) w of
           (Inl e, w1) \<Rightarrow> (Inl e, w1)
         | (Inr trailer, w1) \<Rightarrow> (Inr (replace_str tmpl ''{{Trailer}}'' (trailer_iframe trailer)), w1))
      else (Inr (replace_str tmpl ''{{Trailer}}'' ''''), w))"

definition formatter :: "plugin \<Rightarrow> movie \<Rightarrow> string \<Rightarrow> world \<Rightarrow> (js_error + string) \<times> world" where
  "formatter st data tmpl w =
     format_trailer st data
       (format_poster st data (format_runtime data (generic_pass data (map fst data) tmpl))) w"

definition formatMovie :: "plugin \<Rightarrow> movie \<Rightarrow> world \<Rightarrow> (js_error + string) \<times> world" where
  "formatMovie st movie w = formatter st movie (template (settings st)) w"

subsection \<open>getUrl\<close>

text \<open>\<^verbatim>\<open>/tt\d+$/\<close>: the text from the position on is \<^verbatim>\<open>tt\<close> and one or more digits, up to the
  end of the input.\<close>

fun match_tt_digits_end :: matcher where
  "match_tt_digits_end (t1 # t2 # d # ds) =
     (if t1 = CHR ''t'' \<and> t2 = CHR ''t'' \<and> list_all is_digit (d # ds)
      then Some (t1 # t2 # d # ds, []) else None)"
| "match_tt_digits_end s = None"

text \<open>\<^verbatim>\<open>/\s\([\d]{4}\)/\<close>: a white-space character, an opening parenthesis, four digits, a
  closing parenthesis.\<close>

fun match_ws_year :: matcher where
  "match_ws_year (w # p # a # b # c # d # q # rest) =
     (if is_space w \<and> p = CHR ''('' \<and> is_digit a \<and> is_digit b \<and> is_digit c \<and> is_digit d
         \<and> q = CHR '')''
      then Some ([w, p, a, b, c, d, q], rest) else None)"
| "match_ws_year s = None"

text \<open>\<^verbatim>\<open>/\(([\d]{4})\)/\<close>: the same without the white space; its group is the four digits.\<close>

fun match_paren_year :: matcher where
  "match_paren_year (p # a # b # c # d # q # rest) =
     (if p = CHR ''('' \<and> is_digit a \<and> is_digit b \<and> is_digit c \<and> is_digit d \<and> q = CHR '')''
      then Some ([p, a, b, c, d, q], rest) else None)"
| "match_paren_year s = None"

definition getUrl :: "plugin \<Rightarrow> string \<Rightarrow> string" where
  "getUrl st text =
     (if regex_test match_tt_digits_end text then omdbApiUrl st @ ''i='' @ text
      else if regex_test match_ws_year text then
        omdbApiUrl st @ ''t='' @ replace_first match_ws_year text '''' @ ''&y=''
          @ to_string (case search_first match_paren_year text of
                         None \<Rightarrow> None
                       | Some (pre, mt, post) \<Rightarrow> Some (take 4 (drop 1 mt)))
      else omdbApiUrl st @ ''t='' @ text)"

subsection \<open>crawlMovie\<close>

text \<open>The class \<^verbatim>\<open>[/\\?%*:|"<>]\<close> of the title's sanitisation.\<close>

definition illegal_char :: "char \<Rightarrow> bool" where
  "illegal_char c =
     (c \<in> set [CHR ''/'', CHR 0x5C, CHR ''?'', CHR ''%'', CHR ''*'', CHR '':'', CHR ''|'', CHR 0x22,
               CHR ''<'', CHR ''>''])"

text \<open>The body of the \<^verbatim>\<open>try\<close> block after the request: reading the response's JSON throws
  when the body is not JSON, and \<^verbatim>\<open>movie.Title.replace\<close> throws when the object has no
  \<^verbatim>\<open>Title\<close> (as in the answer of the metadata service for a movie it does not know).\<close>

definition parse_movie :: "js_error + response \<Rightarrow> js_error + movie" where
  "parse_movie r =
     (case r of
        Inl e \<Rightarrow> Inl e
      | Inr resp \<Rightarrow>
          (case json resp of
             Inl e \<Rightarrow> Inl e
           | Inr (SearchBody items) \<Rightarrow>
               Inl (TypeError ''Cannot read properties of undefined (reading replace)'')
           | Inr (MovieBody movie) \<Rightarrow>
               (case map_of movie ''Title'' of
                  None \<Rightarrow> Inl (TypeError ''Cannot read properties of undefined (reading replace)'')
                | Some title \<Rightarrow>
                    Inr (AList.update ''Title'' (replace_global illegal_char ''-'' [] title) movie))))"

definition crawlMovie :: "plugin \<Rightarrow> string \<Rightarrow> world \<Rightarrow> movie option \<times> world" where
  "crawlMovie st text w =
     (let movieUrl = getUrl st text in
      case requestUrl movieUrl w of
        (r, w1) \<Rightarrow>
          (case parse_movie r of
             Inr movie \<Rightarrow> (Some movie, w1)
           | Inl e \<Rightarrow>
               (None, new_Notice (NText movieUrl)
                        (new_Notice (NError e) (new_Notice (NText ''Movie not found.'') w1)))))"

subsection \<open>addContentToFile and crawlAndAdd\<close>

definition addContentToFile :: "plugin \<Rightarrow> string \<Rightarrow> movie \<Rightarrow> world \<Rightarrow> (js_error + unit) \<times> world" where
  "addContentToFile st text movie w =
     (let main_path = mainPath (settings st) in
      case formatter st movie (fileName (settings st)) w of
        (Inl e, w1) \<Rightarrow> (Inl e, w1)
      | (Inr file_name, w1) \<Rightarrow>
          (case vault_create (main_path @ ''/'' @ file_name @ ''.md'') text w1 of
             (Inl e, w2) \<Rightarrow> (Inl e, w2)
           | (Inr u, w2) \<Rightarrow>
               (Inr (), new_Notice (NText ''Movie added successfully!'')
                          (openLinkText [] (main_path @ ''/'' @ file_name @ ''.md'') w2))))"

text \<open>The poster download is started and not awaited: its request is sent when
  \<open>addImageToAssets\<close> is called, and its outcome, a failure included, is dropped. The model
  runs it to its end at the call; the world keeps one list for each kind of effect, so
  nothing is said about when the image is written relative to the note.\<close>

definition crawlAndAdd :: "plugin \<Rightarrow> string \<Rightarrow> world \<Rightarrow> (js_error + unit) \<times> world" where
  "crawlAndAdd st text w =
     (if omdbapikey (settings st) = [] then
        (Inr (), new_Notice (NText ''Please enter your OMDB API key in the settings.'') w)
      else
        (let w0 = (if youtubeapikey (settings st) = []
                   then new_Notice (NText ''Youtube API key is missing. Trailer will not be added.'') w
                   else w) in
         case crawlMovie st text w0 of
           (None, w1) \<Rightarrow> (Inr (), w1)
         | (Some movie, w1) \<Rightarrow>
             (let title = to_string (map_of movie ''Title'');
                  w2 = snd (addImageToAssets st (map_of movie ''Poster'') (title @ ''.jpg'') w1) in
              case formatMovie st movie w2 of
                (Inl e, w3) \<Rightarrow> (Inl e, w3)
              | (Inr movieStr, w3) \<Rightarrow> addContentToFile st movieStr movie w3)))"

subsection \<open>Loading the plugin\<close>

text \<open>\<^verbatim>\<open>onload\<close> merges the stored settings over the defaults and calls \<open>updateKeys\<close>; here the
  stored settings are the two keys. The host's world at the start has done nothing yet and
  its vault accepts every file.\<close>

definition plugin_with_keys :: "string \<Rightarrow> string \<Rightarrow> plugin" where
  "plugin_with_keys omdb yt =
     updateKeys \<lparr> settings = DEFAULT_SETTINGS\<lparr>omdbapikey := omdb, youtubeapikey := yt\<rparr>,
                  youtubeApiUrl = [], omdbApiUrl = [] \<rparr>"

definition initial_world :: "(string \<Rightarrow> http_result) \<Rightarrow> world" where
  "initial_world h =
     \<lparr> http = h, create_error = (\<lambda>p. None), create_binary_error = (\<lambda>p. None),
       fetched = [], notices = [], created = [], binaries = [], opened = [] \<rparr>"

definition movie_response :: "movie \<Rightarrow> http_result" where
  "movie_response m = Responded \<lparr> json = Inr (MovieBody m), arrayBuffer = [] \<rparr>"

definition search_response :: "string list \<Rightarrow> http_result" where
  "search_response items = Responded \<lparr> json = Inr (SearchBody items), arrayBuffer = [] \<rparr>"

definition youtube_warning :: "plugin \<Rightarrow> notice list" where
  "youtube_warning st =
     (if youtubeapikey (settings st) = []
      then [NText ''Youtube API key is missing. Trailer will not be added.''] else [])"

definition http_table :: "(string \<times> http_result) list \<Rightarrow> string \<Rightarrow> http_result" where
  "http_table tab url =
     (case map_of tab url of None \<Rightarrow> Rejected (RequestError ''net::ERR_FAILED'') | Some r \<Rightarrow> r)"

definition with_fileName :: "string \<Rightarrow> plugin \<Rightarrow> plugin" where
  "with_fileName f st = st\<lparr>settings := (settings st)\<lparr>fileName := f\<rparr>\<rparr>"


definition image_response :: "string \<Rightarrow> http_result" where
  "image_response bytes = Responded \<lparr> json = Inl (SyntaxError ''Unexpected token''), arrayBuffer = bytes \<rparr>"

subsection \<open>Shapes of the input of getUrl\<close>



text \<open>The definitions above are those of the program and of its host; the rest of the theory
  states and proves what the specification says about them.\<close>

section \<open>The host's effects\<close>

text \<open>What the host answers does not change while the plugin runs, and each helper touches
  only its own part of the world.\<close>

lemma http_new_Notice [simp]: "http (new_Notice n w) = http w"
  by (simp add: new_Notice_def)

lemma http_requestUrl [simp]: "http (snd (requestUrl u w)) = http w"
  by (simp add: requestUrl_def split: http_result.splits)

lemma http_vault_createBinary [simp]: "http (snd (vault_createBinary p b w)) = http w"
  by (simp add: vault_createBinary_def split: option.splits)

lemma http_addImageToAssets [simp]: "http (snd (addImageToAssets st url f w)) = http w"
  by (simp add: addImageToAssets_def requestUrl_def split: option.splits http_result.splits prod.splits sum.splits)

lemma fetched_requestUrl: "snd (requestUrl u w) = w\<lparr>fetched := fetched w @ [u]\<rparr>"
  by (simp add: requestUrl_def split: http_result.splits)

lemma addImageToAssets_keeps:
  "created (snd (addImageToAssets st url f w)) = created w"
  "opened (snd (addImageToAssets st url f w)) = opened w"
  "notices (snd (addImageToAssets st url f w)) = notices w"
  "create_error (snd (addImageToAssets st url f w)) = create_error w"
  by (simp_all add: addImageToAssets_def requestUrl_def vault_createBinary_def
      split: option.splits http_result.splits prod.splits sum.splits)

lemma fetched_addImageToAssets:
  "fetched (snd (addImageToAssets st (Some p) f w)) = fetched w @ [p]"
  by (simp add: addImageToAssets_def requestUrl_def vault_createBinary_def
      split: option.splits http_result.splits prod.splits sum.splits)

section \<open>Title sanitisation in crawlMovie\<close>

lemma replace_global_dash:
  "replace_global cls ''-'' seen s = map (\<lambda>c. if cls c then CHR ''-'' else c) s"
  by (induction s arbitrary: seen) simp_all

text \<open>
  C1 (as amended). When the metadata request answers with an object that has a \<^verbatim>\<open>Title\<close>,
  \<open>crawlMovie\<close> returns that object with every character of the title that is one of
  \<^verbatim>\<open>/ \ ? % * : | " < >\<close> replaced by \<^verbatim>\<open>-\<close> and every other character and field kept. The
  colon is in the set, so the title \<^verbatim>\<open>Ocean's 8: Redux?\<close> becomes \<^verbatim>\<open>Ocean's 8- Redux-\<close>.
\<close>

theorem crawlMovie_sanitizes_Title:
  assumes "http w (getUrl st text) = Responded r"
    and "json r = Inr (MovieBody m)"
    and "map_of m ''Title'' = Some title"
  shows "fst (crawlMovie st text w)
           = Some (AList.update ''Title'' (map (\<lambda>c. if illegal_char c then CHR ''-'' else c) title) m)"
  using assms
  by (simp add: crawlMovie_def requestUrl_def parse_movie_def replace_global_dash Let_def)

theorem crawlMovie_sanitizes_Title_witness:
  "fst (crawlMovie (plugin_with_keys ''k'' '''') ''Ocean''
          (initial_world (\<lambda>u. movie_response [(''Title'', ''Ocean's 8: Redux?''), (''Year'', ''2018'')])))
     = Some [(''Title'', ''Ocean's 8- Redux-''), (''Year'', ''2018'')]"
proof -
  let ?m = "[(''Title'', ''Ocean's 8: Redux?''), (''Year'', ''2018'')]"
  let ?r = "\<lparr> json = Inr (MovieBody ?m), arrayBuffer = [] \<rparr>"
  have h1: "http (initial_world (\<lambda>u. movie_response ?m))
              (getUrl (plugin_with_keys ''k'' '''') ''Ocean'') = Responded ?r"
    by (simp add: initial_world_def movie_response_def)
  have h2: "json ?r = Inr (MovieBody ?m)"
    by simp
  have h3: "map_of ?m ''Title'' = Some ''Ocean's 8: Redux?''"
    by simp
  show ?thesis
    using crawlMovie_sanitizes_Title [OF h1 h2 h3]
    by (simp add: illegal_char_def)
qed

text \<open>The title of the specification's example, as the code sanitises it: it is not the
  text the example gives, which keeps the colon.\<close>

theorem crawlMovie_Title_example_counterexample:
  "fst (crawlMovie (plugin_with_keys ''k'' '''') ''Ocean''
          (initial_world (\<lambda>u. movie_response [(''Title'', ''Ocean's 8: Redux?'')])))
     = Some [(''Title'', ''Ocean's 8- Redux-'')]
   \<and> ''Ocean's 8- Redux-'' \<noteq> ''Ocean's 8: Redux-''"
  by (simp add: crawlMovie_def requestUrl_def parse_movie_def replace_global_dash Let_def
      initial_world_def movie_response_def illegal_char_def)

section \<open>The orchestrator without a metadata key\<close>

text \<open>
  C6. When \<^verbatim>\<open>settings.omdbapikey\<close> is empty, \<open>crawlAndAdd\<close> returns after one notice (the
  request to configure the key) for every input: the world it leaves differs from the one
  it found in that notice only, so no URL was requested, no note written and no asset
  stored.
\<close>

theorem crawlAndAdd_without_omdb_key:
  assumes "omdbapikey (settings st) = []"
  shows "crawlAndAdd st text w
           = (Inr (), w\<lparr>notices := notices w @ [NText ''Please enter your OMDB API key in the settings.'']\<rparr>)"
  using assms by (simp add: crawlAndAdd_def new_Notice_def)

theorem crawlAndAdd_without_omdb_key_witness:
  "fetched (snd (crawlAndAdd (plugin_with_keys [] ''yt'') ''Dune (2021)''
             (initial_world (\<lambda>u. movie_response [(''Title'', ''Dune'')])))) = []
   \<and> created (snd (crawlAndAdd (plugin_with_keys [] ''yt'') ''Dune (2021)''
             (initial_world (\<lambda>u. movie_response [(''Title'', ''Dune'')])))) = []
   \<and> binaries (snd (crawlAndAdd (plugin_with_keys [] ''yt'') ''Dune (2021)''
             (initial_world (\<lambda>u. movie_response [(''Title'', ''Dune'')])))) = []
   \<and> notices (snd (crawlAndAdd (plugin_with_keys [] ''yt'') ''Dune (2021)''
             (initial_world (\<lambda>u. movie_response [(''Title'', ''Dune'')]))))
        = [NText ''Please enter your OMDB API key in the settings.'']"
proof -
  have key: "omdbapikey (settings (plugin_with_keys [] ''yt'')) = []"
    by (simp add: plugin_with_keys_def updateKeys_def DEFAULT_SETTINGS_def)
  show ?thesis
    using crawlAndAdd_without_omdb_key [OF key]
    by (simp add: initial_world_def)
qed

section \<open>A failed metadata lookup\<close>

lemma crawlMovie_failure:
  assumes "parse_movie (fst (requestUrl (getUrl st text) w)) = Inl e"
  shows "crawlMovie st text w
           = (None, w\<lparr>fetched := fetched w @ [getUrl st text],
                       notices := notices w @ [NText ''Movie not found.'', NError e, NText (getUrl st text)]\<rparr>)"
  using assms
  by (simp add: crawlMovie_def requestUrl_def new_Notice_def Let_def split: http_result.splits)

lemma parse_movie_failure:
  assumes "http w u = Rejected e
       \<or> (\<exists>r. http w u = Responded r \<and> json r = Inl e)
       \<or> (\<exists>r m. http w u = Responded r \<and> json r = Inr (MovieBody m) \<and> map_of m ''Title'' = None
              \<and> e = TypeError ''Cannot read properties of undefined (reading replace)'')"
  shows "parse_movie (fst (requestUrl u w)) = Inl e"
  using assms by (auto simp add: parse_movie_def requestUrl_def)

text \<open>
  C7. The metadata fetch fails when the request is rejected (a network error or an error
  status), when the body is not JSON, or when the parsed object has no \<^verbatim>\<open>Title\<close> (the
  service's answer for a movie it does not know, on which \<^verbatim>\<open>movie.Title.replace\<close>
  throws). In each case \<open>crawlMovie\<close> returns no record after exactly one request and three
  notices: \<^verbatim>\<open>Movie not found.\<close>, the error, and the request URL. \<open>crawlAndAdd\<close>, given a
  metadata key, then returns: the request is not repeated, no other URL is requested (the
  poster download is not started), and no note or asset is written.
\<close>

theorem failed_lookup_aborts:
  assumes "http w (getUrl st text) = Rejected e
       \<or> (\<exists>r. http w (getUrl st text) = Responded r \<and> json r = Inl e)
       \<or> (\<exists>r m. http w (getUrl st text) = Responded r \<and> json r = Inr (MovieBody m)
              \<and> map_of m ''Title'' = None
              \<and> e = TypeError ''Cannot read properties of undefined (reading replace)'')"
    and "omdbapikey (settings st) \<noteq> []"
  shows "crawlMovie st text w
           = (None, w\<lparr>fetched := fetched w @ [getUrl st text],
                       notices := notices w @ [NText ''Movie not found.'', NError e, NText (getUrl st text)]\<rparr>)
       \<and> crawlAndAdd st text w
           = (Inr (), w\<lparr>fetched := fetched w @ [getUrl st text],
                         notices := notices w @ youtube_warning st
                                      @ [NText ''Movie not found.'', NError e, NText (getUrl st text)]\<rparr>)"
proof -
  have p: "parse_movie (fst (requestUrl (getUrl st text) w)) = Inl e"
    using assms(1) by (rule parse_movie_failure)
  have c: "crawlMovie st text w
           = (None, w\<lparr>fetched := fetched w @ [getUrl st text],
                       notices := notices w @ [NText ''Movie not found.'', NError e, NText (getUrl st text)]\<rparr>)"
    using p by (rule crawlMovie_failure)
  let ?w0 = "if youtubeapikey (settings st) = []
             then new_Notice (NText ''Youtube API key is missing. Trailer will not be added.'') w else w"
  have "http ?w0 = http w"
    by simp
  with assms(1) have p0: "parse_movie (fst (requestUrl (getUrl st text) ?w0)) = Inl e"
    by (intro parse_movie_failure) simp
  have c0: "crawlMovie st text ?w0
           = (None, ?w0\<lparr>fetched := fetched ?w0 @ [getUrl st text],
                       notices := notices ?w0 @ [NText ''Movie not found.'', NError e, NText (getUrl st text)]\<rparr>)"
    using p0 by (rule crawlMovie_failure)
  have "crawlAndAdd st text w = (Inr (), snd (crawlMovie st text ?w0))"
    using assms(2) c0 by (simp add: crawlAndAdd_def Let_def)
  then have "crawlAndAdd st text w
           = (Inr (), w\<lparr>fetched := fetched w @ [getUrl st text],
                         notices := notices w @ youtube_warning st
                                      @ [NText ''Movie not found.'', NError e, NText (getUrl st text)]\<rparr>)"
    using c0 by (simp add: youtube_warning_def new_Notice_def)
  with c show ?thesis by simp
qed

theorem failed_lookup_aborts_witness:
  "crawlMovie (plugin_with_keys ''k'' []) ''Nope''
      (initial_world (\<lambda>u. movie_response [(''Response'', ''False''), (''Error'', ''Movie not found!'')]))
     = (None, (initial_world (\<lambda>u. movie_response [(''Response'', ''False''), (''Error'', ''Movie not found!'')]))
          \<lparr>fetched := [''https://www.omdbapi.com/?apikey=k&t=Nope''],
            notices := [NText ''Movie not found.'',
                        NError (TypeError ''Cannot read properties of undefined (reading replace)''),
                        NText ''https://www.omdbapi.com/?apikey=k&t=Nope'']\<rparr>)
   \<and> crawlAndAdd (plugin_with_keys ''k'' []) ''Nope''
      (initial_world (\<lambda>u. movie_response [(''Response'', ''False''), (''Error'', ''Movie not found!'')]))
     = (Inr (), (initial_world (\<lambda>u. movie_response [(''Response'', ''False''), (''Error'', ''Movie not found!'')]))
          \<lparr>fetched := [''https://www.omdbapi.com/?apikey=k&t=Nope''],
            notices := [NText ''Youtube API key is missing. Trailer will not be added.'',
                        NText ''Movie not found.'',
                        NError (TypeError ''Cannot read properties of undefined (reading replace)''),
                        NText ''https://www.omdbapi.com/?apikey=k&t=Nope'']\<rparr>)"
proof -
  let ?st = "plugin_with_keys ''k'' []"
  let ?m = "[(''Response'', ''False''), (''Error'', ''Movie not found!'')]"
  let ?w = "initial_world (\<lambda>u. movie_response ?m)"
  have u: "getUrl ?st ''Nope'' = ''https://www.omdbapi.com/?apikey=k&t=Nope''"
    by code_simp
  have k: "omdbapikey (settings ?st) \<noteq> []"
    by (simp add: plugin_with_keys_def updateKeys_def DEFAULT_SETTINGS_def)
  have y: "youtube_warning ?st = [NText ''Youtube API key is missing. Trailer will not be added.'']"
    by (simp add: youtube_warning_def plugin_with_keys_def updateKeys_def DEFAULT_SETTINGS_def)
  have h: "http ?w (getUrl ?st ''Nope'') = Rejected (TypeError ''Cannot read properties of undefined (reading replace)'')
       \<or> (\<exists>r. http ?w (getUrl ?st ''Nope'') = Responded r
              \<and> json r = Inl (TypeError ''Cannot read properties of undefined (reading replace)''))
       \<or> (\<exists>r m. http ?w (getUrl ?st ''Nope'') = Responded r \<and> json r = Inr (MovieBody m)
              \<and> map_of m ''Title'' = None
              \<and> TypeError ''Cannot read properties of undefined (reading replace)''
                   = TypeError ''Cannot read properties of undefined (reading replace)'')"
    by (simp add: initial_world_def movie_response_def)
  show ?thesis
    using failed_lookup_aborts [OF h k]
    by (simp add: u y initial_world_def)
qed

section \<open>The trailer lookup\<close>

lemma getTrailerOnYoutube_item:
  assumes "http w (youtubeApiUrl st @ title @ '' trailer'') = Responded r"
    and "json r = Inr (SearchBody (v # vs))"
  shows "getTrailerOnYoutube st title w
           = (Inr v, w\<lparr>fetched := fetched w @ [youtubeApiUrl st @ title @ '' trailer'']\<rparr>)"
  using assms by (simp add: getTrailerOnYoutube_def requestUrl_def Let_def)

lemma getTrailerOnYoutube_no_items:
  assumes "http w (youtubeApiUrl st @ title @ '' trailer'') = Responded r"
    and "json r = Inr (SearchBody [])"
  shows "getTrailerOnYoutube st title w
           = (Inl (TypeError ''Cannot read properties of undefined (reading id)''),
              w\<lparr>fetched := fetched w @ [youtubeApiUrl st @ title @ '' trailer'']\<rparr>)"
  using assms by (simp add: getTrailerOnYoutube_def requestUrl_def Let_def)

lemma crawlMovie_success:
  assumes "http w (getUrl st text) = Responded r"
    and "json r = Inr (MovieBody m)"
    and "map_of m ''Title'' = Some t"
  shows "crawlMovie st text w
           = (Some (AList.update ''Title'' (map (\<lambda>c. if illegal_char c then CHR ''-'' else c) t) m),
              w\<lparr>fetched := fetched w @ [getUrl st text]\<rparr>)"
  using assms
  by (simp add: crawlMovie_def requestUrl_def parse_movie_def replace_global_dash Let_def)

lemma formatter_trailer_fault:
  assumes "youtubeapikey (settings st) \<noteq> []"
    and "http w (youtubeApiUrl st @ to_string (map_of data ''Title'') @ '' trailer'') = Responded r"
    and "json r = Inr (SearchBody [])"
  shows "formatter st data t w
           = (Inl (TypeError ''Cannot read properties of undefined (reading id)''),
              w\<lparr>fetched := fetched w @ [youtubeApiUrl st @ to_string (map_of data ''Title'') @ '' trailer'']\<rparr>)"
  using assms by (simp add: formatter_def format_trailer_def getTrailerOnYoutube_no_items)

lemma crawlAndAdd_trailer_fault:
  assumes "omdbapikey (settings st) \<noteq> []"
    and "youtubeapikey (settings st) \<noteq> []"
    and "http w (getUrl st text) = Responded r1"
    and "json r1 = Inr (MovieBody m)"
    and "map_of m ''Title'' = Some t"
    and "http w (youtubeApiUrl st @ map (\<lambda>c. if illegal_char c then CHR ''-'' else c) t @ '' trailer'')
           = Responded r2"
    and "json r2 = Inr (SearchBody [])"
  shows "fst (crawlAndAdd st text w) = Inl (TypeError ''Cannot read properties of undefined (reading id)'')
       \<and> created (snd (crawlAndAdd st text w)) = created w
       \<and> opened (snd (crawlAndAdd st text w)) = opened w"
proof -
  let ?title = "map (\<lambda>c. if illegal_char c then CHR ''-'' else c) t"
  let ?movie = "AList.update ''Title'' ?title m"
  let ?w1 = "w\<lparr>fetched := fetched w @ [getUrl st text]\<rparr>"
  let ?w2 = "snd (addImageToAssets st (map_of ?movie ''Poster'') (?title @ ''.jpg'') ?w1)"
  have c: "crawlMovie st text w = (Some ?movie, ?w1)"
    using assms(3-5) by (rule crawlMovie_success)
  have t: "to_string (map_of ?movie ''Title'') = ?title"
    by (simp add: to_string_def update_conv')
  have h: "http ?w2 (youtubeApiUrl st @ to_string (map_of ?movie ''Title'') @ '' trailer'') = Responded r2"
    using assms(6) by (simp add: t)
  have f: "formatMovie st ?movie ?w2
           = (Inl (TypeError ''Cannot read properties of undefined (reading id)''),
              ?w2\<lparr>fetched := fetched ?w2 @ [youtubeApiUrl st @ to_string (map_of ?movie ''Title'') @ '' trailer'']\<rparr>)"
    unfolding formatMovie_def using assms(2) h assms(7) by (rule formatter_trailer_fault)
  have "crawlAndAdd st text w
          = (Inl (TypeError ''Cannot read properties of undefined (reading id)''),
              ?w2\<lparr>fetched := fetched ?w2 @ [youtubeApiUrl st @ to_string (map_of ?movie ''Title'') @ '' trailer'']\<rparr>)"
    using assms(1,2) c f by (simp add: crawlAndAdd_def Let_def t)
  then show ?thesis
    by (simp add: addImageToAssets_keeps)
qed

text \<open>
  C8. \<open>getTrailerOnYoutube\<close> requests the video search for the title followed by
  \<^verbatim>\<open> trailer\<close> and returns the video identifier of the first item of the answer. When the
  answer has no item, reading \<^verbatim>\<open>items[0].id\<close> throws a TypeError and nothing is returned.
  Nothing in the pipeline catches it: with both keys configured and a successful metadata
  lookup, \<open>crawlAndAdd\<close> ends with that TypeError, and no note has been written or opened.
\<close>

theorem getTrailerOnYoutube_first_item_or_fault:
  "(http w (youtubeApiUrl st @ title @ '' trailer'') = Responded r \<and> json r = Inr (SearchBody (v # vs))
      \<longrightarrow> getTrailerOnYoutube st title w
            = (Inr v, w\<lparr>fetched := fetched w @ [youtubeApiUrl st @ title @ '' trailer'']\<rparr>))
   \<and> (http w (youtubeApiUrl st @ title @ '' trailer'') = Responded r \<and> json r = Inr (SearchBody [])
      \<longrightarrow> getTrailerOnYoutube st title w
            = (Inl (TypeError ''Cannot read properties of undefined (reading id)''),
               w\<lparr>fetched := fetched w @ [youtubeApiUrl st @ title @ '' trailer'']\<rparr>))
   \<and> (omdbapikey (settings st) \<noteq> [] \<and> youtubeapikey (settings st) \<noteq> []
        \<and> http w (getUrl st text) = Responded r1 \<and> json r1 = Inr (MovieBody m)
        \<and> map_of m ''Title'' = Some t
        \<and> http w (youtubeApiUrl st @ map (\<lambda>c. if illegal_char c then CHR ''-'' else c) t @ '' trailer'')
             = Responded r2
        \<and> json r2 = Inr (SearchBody [])
      \<longrightarrow> fst (crawlAndAdd st text w) = Inl (TypeError ''Cannot read properties of undefined (reading id)'')
          \<and> created (snd (crawlAndAdd st text w)) = created w
          \<and> opened (snd (crawlAndAdd st text w)) = opened w)"
  using getTrailerOnYoutube_item [of w st title r v vs]
    getTrailerOnYoutube_no_items [of w st title r]
    crawlAndAdd_trailer_fault [of st w "text" r1 m t r2]
  by blast

theorem getTrailerOnYoutube_first_item_or_fault_witness:
  "getTrailerOnYoutube (plugin_with_keys ''k'' ''y'') ''Dune'' (initial_world (\<lambda>u. search_response [''n9xhJrPXop4'']))
     = (Inr ''n9xhJrPXop4'',
        (initial_world (\<lambda>u. search_response [''n9xhJrPXop4'']))
          \<lparr>fetched := [youtubeApiUrl (plugin_with_keys ''k'' ''y'') @ ''Dune trailer'']\<rparr>)
   \<and> getTrailerOnYoutube (plugin_with_keys ''k'' ''y'') ''Dune'' (initial_world (\<lambda>u. search_response []))
     = (Inl (TypeError ''Cannot read properties of undefined (reading id)''),
        (initial_world (\<lambda>u. search_response []))
          \<lparr>fetched := [youtubeApiUrl (plugin_with_keys ''k'' ''y'') @ ''Dune trailer'']\<rparr>)
   \<and> fst (crawlAndAdd (plugin_with_keys ''k'' ''y'') ''Dune''
        (initial_world (http_table
           [(''https://www.omdbapi.com/?apikey=k&t=Dune'', movie_response [(''Title'', ''Dune''), (''Poster'', ''N/A'')]),
            (''https://www.googleapis.com/youtube/v3/search?key=y&type=video&maxResults=1&videoEmbeddable=true&q=Dune trailer'',
             search_response [])])))
     = Inl (TypeError ''Cannot read properties of undefined (reading id)'')
   \<and> created (snd (crawlAndAdd (plugin_with_keys ''k'' ''y'') ''Dune''
        (initial_world (http_table
           [(''https://www.omdbapi.com/?apikey=k&t=Dune'', movie_response [(''Title'', ''Dune''), (''Poster'', ''N/A'')]),
            (''https://www.googleapis.com/youtube/v3/search?key=y&type=video&maxResults=1&videoEmbeddable=true&q=Dune trailer'',
             search_response [])])))) = []"
proof -
  let ?st = "plugin_with_keys ''k'' ''y''"
  let ?tab = "[(''https://www.omdbapi.com/?apikey=k&t=Dune'', movie_response [(''Title'', ''Dune''), (''Poster'', ''N/A'')]),
            (''https://www.googleapis.com/youtube/v3/search?key=y&type=video&maxResults=1&videoEmbeddable=true&q=Dune trailer'',
             search_response [])]"
  let ?w = "initial_world (http_table ?tab)"
  have u: "getUrl ?st ''Dune'' = ''https://www.omdbapi.com/?apikey=k&t=Dune''"
    by code_simp
  have y: "youtubeApiUrl ?st
      = ''https://www.googleapis.com/youtube/v3/search?key=y&type=video&maxResults=1&videoEmbeddable=true&q=''"
    by code_simp
  have k: "omdbapikey (settings ?st) \<noteq> [] \<and> youtubeapikey (settings ?st) \<noteq> []"
    by (simp add: plugin_with_keys_def updateKeys_def DEFAULT_SETTINGS_def)
  have s: "map (\<lambda>c. if illegal_char c then CHR ''-'' else c) ''Dune'' = ''Dune''"
    by (simp add: illegal_char_def)
  have a: "getTrailerOnYoutube ?st ''Dune'' (initial_world (\<lambda>u. search_response [''n9xhJrPXop4'']))
     = (Inr ''n9xhJrPXop4'',
        (initial_world (\<lambda>u. search_response [''n9xhJrPXop4'']))
          \<lparr>fetched := [youtubeApiUrl ?st @ ''Dune trailer'']\<rparr>)"
    using getTrailerOnYoutube_first_item_or_fault
      [where w = "initial_world (\<lambda>u. search_response [''n9xhJrPXop4''])" and st = ?st
         and title = "''Dune''" and v = "''n9xhJrPXop4''" and vs = "[]"
         and r = "\<lparr>json = Inr (SearchBody [''n9xhJrPXop4'']), arrayBuffer = []\<rparr>",
       THEN conjunct1]
    by (simp add: initial_world_def search_response_def)
  have b: "getTrailerOnYoutube ?st ''Dune'' (initial_world (\<lambda>u. search_response []))
     = (Inl (TypeError ''Cannot read properties of undefined (reading id)''),
        (initial_world (\<lambda>u. search_response []))
          \<lparr>fetched := [youtubeApiUrl ?st @ ''Dune trailer'']\<rparr>)"
    using getTrailerOnYoutube_first_item_or_fault
      [where w = "initial_world (\<lambda>u. search_response [])" and st = ?st and title = "''Dune''"
         and r = "\<lparr>json = Inr (SearchBody []), arrayBuffer = []\<rparr>",
       THEN conjunct2, THEN conjunct1]
    by (simp add: initial_world_def search_response_def)
  have p: "omdbapikey (settings ?st) \<noteq> [] \<and> youtubeapikey (settings ?st) \<noteq> []
        \<and> http ?w (getUrl ?st ''Dune'')
             = Responded \<lparr>json = Inr (MovieBody [(''Title'', ''Dune''), (''Poster'', ''N/A'')]), arrayBuffer = []\<rparr>
        \<and> json \<lparr>json = Inr (MovieBody [(''Title'', ''Dune''), (''Poster'', ''N/A'')]), arrayBuffer = []\<rparr>
             = Inr (MovieBody [(''Title'', ''Dune''), (''Poster'', ''N/A'')])
        \<and> map_of [(''Title'', ''Dune''), (''Poster'', ''N/A'')] ''Title'' = Some ''Dune''
        \<and> http ?w (youtubeApiUrl ?st @ map (\<lambda>c. if illegal_char c then CHR ''-'' else c) ''Dune'' @ '' trailer'')
             = Responded \<lparr>json = Inr (SearchBody []), arrayBuffer = []\<rparr>
        \<and> json \<lparr>json = Inr (SearchBody []), arrayBuffer = []\<rparr> = Inr (SearchBody [])"
    using k by (simp add: u y illegal_char_def initial_world_def http_table_def movie_response_def search_response_def)
  have c: "fst (crawlAndAdd ?st ''Dune'' ?w) = Inl (TypeError ''Cannot read properties of undefined (reading id)'')
       \<and> created (snd (crawlAndAdd ?st ''Dune'' ?w)) = created ?w
       \<and> opened (snd (crawlAndAdd ?st ''Dune'' ?w)) = opened ?w"
    using getTrailerOnYoutube_first_item_or_fault [THEN conjunct2, THEN conjunct2, THEN mp, OF p] .
  have "created ?w = []"
    by (simp add: initial_world_def)
  with a b c show ?thesis
    by simp
qed

section \<open>The file name of the note\<close>

lemma formatter_with_trailer:
  assumes "youtubeapikey (settings st) \<noteq> []"
    and "to_string (map_of data ''Title'') = title"
    and "http w (youtubeApiUrl st @ title @ '' trailer'') = Responded r"
    and "json r = Inr (SearchBody (v # vs))"
  shows "formatter st data t w
           = (Inr (replace_str (format_poster st data (format_runtime data (generic_pass data (map fst data) t)))
                     ''{{Trailer}}'' (trailer_iframe v)),
              w\<lparr>fetched := fetched w @ [youtubeApiUrl st @ title @ '' trailer'']\<rparr>)"
  using assms by (simp add: formatter_def format_trailer_def getTrailerOnYoutube_item)

lemma formatter_without_key:
  assumes "youtubeapikey (settings st) = []"
  shows "formatter st data t w
           = (Inr (replace_str (format_poster st data (format_runtime data (generic_pass data (map fst data) t)))
                     ''{{Trailer}}'' []), w)"
  using assms by (simp add: formatter_def format_trailer_def)

lemma addContentToFile_created:
  assumes "formatter st movie (fileName (settings st)) w = (Inr file_name, w1)"
    and "create_error w1 (mainPath (settings st) @ ''/'' @ file_name @ ''.md'') = None"
  shows "addContentToFile st text movie w
           = (Inr (), w1\<lparr>created := created w1 @ [(mainPath (settings st) @ ''/'' @ file_name @ ''.md'', text)],
                           opened := opened w1 @ [mainPath (settings st) @ ''/'' @ file_name @ ''.md''],
                           notices := notices w1 @ [NText ''Movie added successfully!'']\<rparr>)"
  using assms
  by (simp add: addContentToFile_def vault_create_def openLinkText_def new_Notice_def Let_def)

lemma fetched_addContentToFile:
  "fetched (snd (addContentToFile st text movie w))
     = fetched (snd (formatter st movie (fileName (settings st)) w))"
  by (simp add: addContentToFile_def vault_create_def openLinkText_def new_Notice_def Let_def
      split: prod.splits sum.splits option.splits)

lemma crawlAndAdd_fetches:
  assumes "omdbapikey (settings st) \<noteq> []"
    and "youtubeapikey (settings st) \<noteq> []"
    and "http w (getUrl st text) = Responded r1"
    and "json r1 = Inr (MovieBody m)"
    and "map_of m ''Title'' = Some t"
    and "map_of m ''Poster'' = Some p"
    and "http w (youtubeApiUrl st @ map (\<lambda>c. if illegal_char c then CHR ''-'' else c) t @ '' trailer'')
           = Responded r2"
    and "json r2 = Inr (SearchBody (v # vs))"
  shows "fetched (snd (crawlAndAdd st text w))
           = fetched w @ [getUrl st text, p,
               youtubeApiUrl st @ map (\<lambda>c. if illegal_char c then CHR ''-'' else c) t @ '' trailer'',
               youtubeApiUrl st @ map (\<lambda>c. if illegal_char c then CHR ''-'' else c) t @ '' trailer'']"
proof -
  let ?title = "map (\<lambda>c. if illegal_char c then CHR ''-'' else c) t"
  let ?movie = "AList.update ''Title'' ?title m"
  let ?yurl = "youtubeApiUrl st @ ?title @ '' trailer''"
  let ?w1 = "w\<lparr>fetched := fetched w @ [getUrl st text]\<rparr>"
  let ?w2 = "snd (addImageToAssets st (map_of ?movie ''Poster'') (?title @ ''.jpg'') ?w1)"
  let ?w3 = "?w2\<lparr>fetched := fetched ?w2 @ [?yurl]\<rparr>"
  let ?body = "replace_str (format_poster st ?movie (format_runtime ?movie
                  (generic_pass ?movie (map fst ?movie) (template (settings st))))) ''{{Trailer}}'' (trailer_iframe v)"
  let ?file = "replace_str (format_poster st ?movie (format_runtime ?movie
                  (generic_pass ?movie (map fst ?movie) (fileName (settings st))))) ''{{Trailer}}'' (trailer_iframe v)"
  have c: "crawlMovie st text w = (Some ?movie, ?w1)"
    using assms(3-5) by (rule crawlMovie_success)
  have t: "to_string (map_of ?movie ''Title'') = ?title"
    by (simp add: to_string_def update_conv')
  have po: "map_of ?movie ''Poster'' = Some p"
    using assms(6) by (simp add: update_conv')
  have f2: "fetched ?w2 = fetched w @ [getUrl st text, p]"
    by (simp add: po fetched_addImageToAssets)
  have h2: "http ?w2 ?yurl = Responded r2"
    using assms(7) by simp
  have fm: "formatMovie st ?movie ?w2 = (Inr ?body, ?w3)"
    unfolding formatMovie_def
    using assms(2) t h2 assms(8) by (rule formatter_with_trailer)
  have h3: "http ?w3 ?yurl = Responded r2"
    using assms(7) by simp
  have ff: "formatter st ?movie (fileName (settings st)) ?w3 = (Inr ?file, ?w3\<lparr>fetched := fetched ?w3 @ [?yurl]\<rparr>)"
    using assms(2) t h3 assms(8) by (rule formatter_with_trailer)
  have "crawlAndAdd st text w = addContentToFile st ?body ?movie ?w3"
    using assms(1,2) c fm by (simp add: crawlAndAdd_def Let_def t)
  then have "fetched (snd (crawlAndAdd st text w)) = fetched (snd (formatter st ?movie (fileName (settings st)) ?w3))"
    by (simp add: fetched_addContentToFile)
  also have "\<dots> = fetched ?w3 @ [?yurl]"
    by (simp add: ff)
  also have "\<dots> = fetched w @ [getUrl st text, p, ?yurl, ?yurl]"
    using f2 by simp
  finally show ?thesis .
qed

text \<open>
  C9. \<open>addContentToFile\<close> computes the file name by running \<open>formatter\<close>, the function that
  formats the note, on \<^verbatim>\<open>settings.fileName\<close>, and creates the note at
  \<^verbatim>\<open>mainPath/<name>.md\<close>. So with a video-search key the name is the file-name template
  after the generic pass and the Runtime, Poster and Trailer substitutions, and resolving
  it requests the trailer once more: a run of \<open>crawlAndAdd\<close> that finds its movie requests
  the metadata, the poster, and the trailer search twice.
\<close>

theorem addContentToFile_resolves_name_with_formatter:
  "(formatter st movie (fileName (settings st)) w = (Inr file_name, w1)
      \<and> create_error w1 (mainPath (settings st) @ ''/'' @ file_name @ ''.md'') = None
     \<longrightarrow> addContentToFile st text movie w
           = (Inr (), w1\<lparr>created := created w1 @ [(mainPath (settings st) @ ''/'' @ file_name @ ''.md'', text)],
                           opened := opened w1 @ [mainPath (settings st) @ ''/'' @ file_name @ ''.md''],
                           notices := notices w1 @ [NText ''Movie added successfully!'']\<rparr>))
   \<and> (youtubeapikey (settings st) \<noteq> [] \<and> to_string (map_of movie ''Title'') = title
        \<and> http w (youtubeApiUrl st @ title @ '' trailer'') = Responded r
        \<and> json r = Inr (SearchBody (v # vs))
     \<longrightarrow> formatter st movie (fileName (settings st)) w
           = (Inr (replace_str
                     (format_poster st movie (format_runtime movie
                        (generic_pass movie (map fst movie) (fileName (settings st)))))
                     ''{{Trailer}}'' (trailer_iframe v)),
              w\<lparr>fetched := fetched w @ [youtubeApiUrl st @ title @ '' trailer'']\<rparr>))
   \<and> (omdbapikey (settings st) \<noteq> [] \<and> youtubeapikey (settings st) \<noteq> []
        \<and> http w (getUrl st text) = Responded r1 \<and> json r1 = Inr (MovieBody m)
        \<and> map_of m ''Title'' = Some t \<and> map_of m ''Poster'' = Some p
        \<and> http w (youtubeApiUrl st @ map (\<lambda>c. if illegal_char c then CHR ''-'' else c) t @ '' trailer'')
             = Responded r2
        \<and> json r2 = Inr (SearchBody (v # vs))
     \<longrightarrow> fetched (snd (crawlAndAdd st text w))
           = fetched w @ [getUrl st text, p,
               youtubeApiUrl st @ map (\<lambda>c. if illegal_char c then CHR ''-'' else c) t @ '' trailer'',
               youtubeApiUrl st @ map (\<lambda>c. if illegal_char c then CHR ''-'' else c) t @ '' trailer''])"
  using addContentToFile_created [of st movie w file_name w1 "text"]
    formatter_with_trailer [of st movie title w r v vs "fileName (settings st)"]
    crawlAndAdd_fetches [of st w "text" r1 m t p r2 v vs]
  by blast

theorem addContentToFile_resolves_name_with_formatter_witness:
  "created (snd (addContentToFile
      (with_fileName ''{{Runtime}} {{Title}} {{Poster}}{{Trailer}}'' (plugin_with_keys ''k'' ''y''))
      ''note text'' [(''Title'', ''Dune''), (''Runtime'', ''155 min''), (''Poster'', ''N/A'')]
      (initial_world (\<lambda>u. search_response [''n9xhJrPXop4'']))))
     = [(''movies/2h 35m Dune -'' @ trailer_iframe ''n9xhJrPXop4'' @ ''.md'', ''note text'')]
   \<and> fetched (snd (addContentToFile
      (with_fileName ''{{Runtime}} {{Title}} {{Poster}}{{Trailer}}'' (plugin_with_keys ''k'' ''y''))
      ''note text'' [(''Title'', ''Dune''), (''Runtime'', ''155 min''), (''Poster'', ''N/A'')]
      (initial_world (\<lambda>u. search_response [''n9xhJrPXop4'']))))
     = [''https://www.googleapis.com/youtube/v3/search?key=y&type=video&maxResults=1&videoEmbeddable=true&q=Dune trailer'']
   \<and> fetched (snd (crawlAndAdd (plugin_with_keys ''k'' ''y'') ''Dune''
        (initial_world (http_table
           [(''https://www.omdbapi.com/?apikey=k&t=Dune'',
             movie_response [(''Title'', ''Dune''), (''Runtime'', ''155 min''), (''Poster'', ''http://x/p.jpg'')]),
            (''https://www.googleapis.com/youtube/v3/search?key=y&type=video&maxResults=1&videoEmbeddable=true&q=Dune trailer'',
             search_response [''n9xhJrPXop4''])]))))
     = [''https://www.omdbapi.com/?apikey=k&t=Dune'', ''http://x/p.jpg'',
        ''https://www.googleapis.com/youtube/v3/search?key=y&type=video&maxResults=1&videoEmbeddable=true&q=Dune trailer'',
        ''https://www.googleapis.com/youtube/v3/search?key=y&type=video&maxResults=1&videoEmbeddable=true&q=Dune trailer'']"
proof -
  let ?st = "with_fileName ''{{Runtime}} {{Title}} {{Poster}}{{Trailer}}'' (plugin_with_keys ''k'' ''y'')"
  let ?movie = "[(''Title'', ''Dune''), (''Runtime'', ''155 min''), (''Poster'', ''N/A'')]"
  let ?w = "initial_world (\<lambda>u. search_response [''n9xhJrPXop4''])"
  let ?yurl = "''https://www.googleapis.com/youtube/v3/search?key=y&type=video&maxResults=1&videoEmbeddable=true&q=Dune trailer''"
  let ?r = "\<lparr>json = Inr (SearchBody [''n9xhJrPXop4'']), arrayBuffer = []\<rparr>"
  let ?w1 = "?w\<lparr>fetched := fetched ?w @ [youtubeApiUrl ?st @ ''Dune'' @ '' trailer'']\<rparr>"
  have y: "youtubeApiUrl ?st
      = ''https://www.googleapis.com/youtube/v3/search?key=y&type=video&maxResults=1&videoEmbeddable=true&q=''"
    by code_simp
  have name: "replace_str
                (format_poster ?st ?movie (format_runtime ?movie
                   (generic_pass ?movie (map fst ?movie) (fileName (settings ?st)))))
                ''{{Trailer}}'' (trailer_iframe ''n9xhJrPXop4'')
              = ''2h 35m Dune -'' @ trailer_iframe ''n9xhJrPXop4''"
    by code_simp
  have p2: "youtubeapikey (settings ?st) \<noteq> [] \<and> to_string (map_of ?movie ''Title'') = ''Dune''
        \<and> http ?w (youtubeApiUrl ?st @ ''Dune'' @ '' trailer'') = Responded ?r
        \<and> json ?r = Inr (SearchBody [''n9xhJrPXop4''])"
    by (simp add: with_fileName_def plugin_with_keys_def updateKeys_def DEFAULT_SETTINGS_def to_string_def
        initial_world_def search_response_def)
  have f: "formatter ?st ?movie (fileName (settings ?st)) ?w
            = (Inr (''2h 35m Dune -'' @ trailer_iframe ''n9xhJrPXop4''), ?w1)"
    using addContentToFile_resolves_name_with_formatter [THEN conjunct2, THEN conjunct1, THEN mp, OF p2]
    by (simp only: name)
  have mp': "mainPath (settings ?st) = ''movies''"
    by (simp add: with_fileName_def plugin_with_keys_def updateKeys_def DEFAULT_SETTINGS_def)
  have p1: "formatter ?st ?movie (fileName (settings ?st)) ?w
            = (Inr (''2h 35m Dune -'' @ trailer_iframe ''n9xhJrPXop4''), ?w1)
      \<and> create_error ?w1 (mainPath (settings ?st) @ ''/'' @ (''2h 35m Dune -'' @ trailer_iframe ''n9xhJrPXop4'') @ ''.md'') = None"
    using f by (simp add: initial_world_def)
  have a: "addContentToFile ?st ''note text'' ?movie ?w
           = (Inr (), ?w1\<lparr>created := created ?w1 @ [(mainPath (settings ?st) @ ''/'' @ (''2h 35m Dune -'' @ trailer_iframe ''n9xhJrPXop4'') @ ''.md'', ''note text'')],
                           opened := opened ?w1 @ [mainPath (settings ?st) @ ''/'' @ (''2h 35m Dune -'' @ trailer_iframe ''n9xhJrPXop4'') @ ''.md''],
                           notices := notices ?w1 @ [NText ''Movie added successfully!'']\<rparr>)"
    using addContentToFile_resolves_name_with_formatter [THEN conjunct1, THEN mp, OF p1] .
  have a1: "created (snd (addContentToFile ?st ''note text'' ?movie ?w))
     = [(''movies/2h 35m Dune -'' @ trailer_iframe ''n9xhJrPXop4'' @ ''.md'', ''note text'')]"
    unfolding a by (simp add: mp' initial_world_def)
  have a2: "fetched (snd (addContentToFile ?st ''note text'' ?movie ?w)) = [?yurl]"
    unfolding a by (simp add: y initial_world_def)
  let ?st2 = "plugin_with_keys ''k'' ''y''"
  let ?m2 = "[(''Title'', ''Dune''), (''Runtime'', ''155 min''), (''Poster'', ''http://x/p.jpg'')]"
  let ?w2 = "initial_world (http_table
           [(''https://www.omdbapi.com/?apikey=k&t=Dune'', movie_response ?m2),
            (?yurl, search_response [''n9xhJrPXop4''])])"
  have u: "getUrl ?st2 ''Dune'' = ''https://www.omdbapi.com/?apikey=k&t=Dune''"
    by code_simp
  have y2: "youtubeApiUrl ?st2
      = ''https://www.googleapis.com/youtube/v3/search?key=y&type=video&maxResults=1&videoEmbeddable=true&q=''"
    by code_simp
  have k: "omdbapikey (settings ?st2) \<noteq> [] \<and> youtubeapikey (settings ?st2) \<noteq> []"
    by (simp add: plugin_with_keys_def updateKeys_def DEFAULT_SETTINGS_def)
  have p3: "omdbapikey (settings ?st2) \<noteq> [] \<and> youtubeapikey (settings ?st2) \<noteq> []
        \<and> http ?w2 (getUrl ?st2 ''Dune'') = Responded \<lparr>json = Inr (MovieBody ?m2), arrayBuffer = []\<rparr>
        \<and> json \<lparr>json = Inr (MovieBody ?m2), arrayBuffer = []\<rparr> = Inr (MovieBody ?m2)
        \<and> map_of ?m2 ''Title'' = Some ''Dune'' \<and> map_of ?m2 ''Poster'' = Some ''http://x/p.jpg''
        \<and> http ?w2 (youtubeApiUrl ?st2 @ map (\<lambda>c. if illegal_char c then CHR ''-'' else c) ''Dune'' @ '' trailer'')
             = Responded ?r
        \<and> json ?r = Inr (SearchBody [''n9xhJrPXop4''])"
    using k
    by (simp add: u y2 illegal_char_def initial_world_def http_table_def movie_response_def
        search_response_def)
  have a3: "fetched (snd (crawlAndAdd ?st2 ''Dune'' ?w2))
     = fetched ?w2 @ [getUrl ?st2 ''Dune'', ''http://x/p.jpg'',
          youtubeApiUrl ?st2 @ map (\<lambda>c. if illegal_char c then CHR ''-'' else c) ''Dune'' @ '' trailer'',
          youtubeApiUrl ?st2 @ map (\<lambda>c. if illegal_char c then CHR ''-'' else c) ''Dune'' @ '' trailer'']"
    using addContentToFile_resolves_name_with_formatter [THEN conjunct2, THEN conjunct2, THEN mp, OF p3] .
  have a3': "fetched (snd (crawlAndAdd ?st2 ''Dune'' ?w2))
     = [''https://www.omdbapi.com/?apikey=k&t=Dune'', ''http://x/p.jpg'', ?yurl, ?yurl]"
    unfolding a3 by (simp add: u y2 illegal_char_def initial_world_def)
  from a1 a2 a3' show ?thesis
    by simp
qed

section \<open>The runtime\<close>













section \<open>The query built by getUrl\<close>

lemma search_first_found:
  "m suf \<noteq> None \<Longrightarrow> search_first m (pre @ suf) \<noteq> None"
proof (induction pre)
  case Nil
  then show ?case by (cases suf) (auto split: option.splits)
next
  case (Cons c pre)
  then show ?case by (auto split: option.splits)
qed

lemma search_first_origin:
  "search_first m s \<noteq> None \<Longrightarrow> \<exists>pre suf. s = pre @ suf \<and> m suf \<noteq> None"
proof (induction s)
  case Nil
  then show ?case by (auto split: option.splits)
next
  case (Cons c s)
  show ?case
  proof (cases "m (c # s)")
    case None
    with Cons.prems have "search_first m s \<noteq> None"
      by (auto split: option.splits)
    then obtain pre suf where "s = pre @ suf" "m suf \<noteq> None"
      using Cons.IH by blast
    then have "c # s = (c # pre) @ suf \<and> m suf \<noteq> None"
      by simp
    then show ?thesis by blast
  next
    case (Some a)
    then have "c # s = [] @ (c # s) \<and> m (c # s) \<noteq> None"
      by simp
    then show ?thesis by blast
  qed
qed

lemma regex_test_iff:
  "regex_test m s \<longleftrightarrow> (\<exists>pre suf. s = pre @ suf \<and> m suf \<noteq> None)"
  unfolding regex_test_def using search_first_found search_first_origin by blast

lemma search_first_at:
  assumes "\<And>p1 p2. pre = p1 @ p2 \<Longrightarrow> p2 \<noteq> [] \<Longrightarrow> m (p2 @ suf) = None"
    and "m suf = Some (mt, rest)"
  shows "search_first m (pre @ suf) = Some (pre, mt, rest)"
  using assms
proof (induction pre)
  case Nil
  then show ?case by (cases suf) auto
next
  case (Cons c pre)
  have "m ((c # pre) @ suf) = None"
    using Cons.prems(1) [of "[]" "c # pre"] by simp
  moreover have "search_first m (pre @ suf) = Some (pre, mt, rest)"
  proof (rule Cons.IH)
    fix p1 p2 assume "pre = p1 @ p2" "p2 \<noteq> []"
    then show "m (p2 @ suf) = None"
      using Cons.prems(1) [of "c # p1" p2] by simp
  qed (rule Cons.prems(2))
  ultimately show ?case by simp
qed



lemma match_paren_year_iff:
  "match_paren_year s = Some (mt, rest) \<longleftrightarrow>
     (\<exists>a b c d. s = [CHR ''('', a, b, c, d, CHR '')''] @ rest \<and> mt = [CHR ''('', a, b, c, d, CHR '')'']
        \<and> is_digit a \<and> is_digit b \<and> is_digit c \<and> is_digit d)"
  by (cases s rule: match_paren_year.cases) auto

















section \<open>Replacing the first occurrence of a token\<close>

lemma strip_prefix_iff: "strip_prefix p s = Some r \<longleftrightarrow> s = p @ r"
  by (induction p s rule: strip_prefix.induct) auto

lemma strip_prefix_append: "strip_prefix p (p @ r) = Some r"
  by (simp add: strip_prefix_iff)

lemma match_literal_iff: "match_literal pat s = Some (mt, r) \<longleftrightarrow> mt = pat \<and> s = pat @ r"
  by (auto simp add: match_literal_def strip_prefix_iff strip_prefix_append split: option.splits)

lemma match_literal_None_iff: "match_literal pat s = None \<longleftrightarrow> (\<forall>r. s \<noteq> pat @ r)"
proof (cases "match_literal pat s")
  case None
  have "s \<noteq> pat @ r" for r
    using None match_literal_iff [of pat s pat r] by auto
  with None show ?thesis by simp
next
  case (Some a)
  then show ?thesis
    by (cases a) (auto simp add: match_literal_iff)
qed

lemma contains_iff: "contains s pat \<longleftrightarrow> (\<exists>a b. s = a @ pat @ b)"
proof -
  have "contains s pat \<longleftrightarrow> (\<exists>pre suf. s = pre @ suf \<and> match_literal pat suf \<noteq> None)"
    using regex_test_iff [of "match_literal pat" s] by (simp add: contains_def regex_test_def)
  also have "\<dots> \<longleftrightarrow> (\<exists>a b. s = a @ pat @ b)"
    by (auto simp add: match_literal_None_iff)
  finally show ?thesis .
qed



lemma get_substitution_plain:
  "CHR ''$'' \<notin> set v \<Longrightarrow> get_substitution mt pre post v = v"
  by (induction mt pre post v rule: get_substitution.induct) auto

lemma replace_str_at:
  assumes "\<And>p1 p2. pre = p1 @ p2 \<Longrightarrow> p2 \<noteq> [] \<Longrightarrow> match_literal pat (p2 @ pat @ post) = None"
    and "CHR ''$'' \<notin> set v"
  shows "replace_str (pre @ pat @ post) pat v = pre @ v @ post"
proof -
  have m: "match_literal pat (pat @ post) = Some (pat, post)"
    by (simp add: match_literal_def strip_prefix_append)
  have "search_first (match_literal pat) (pre @ pat @ post) = Some (pre, pat, post)"
    using assms(1) m by (rule search_first_at)
  then show ?thesis
    using assms(2) by (simp add: replace_str_def replace_first_def get_substitution_plain)
qed







lemma replace_str_first:
  assumes "\<not> contains (pre @ butlast pat) pat" and "pat \<noteq> []" and "CHR ''$'' \<notin> set v"
  shows "replace_str (pre @ pat @ post) pat v = pre @ v @ post"
proof (rule replace_str_at)
  fix p1 p2 assume pre: "pre = p1 @ p2" and ne: "p2 \<noteq> []"
  show "match_literal pat (p2 @ pat @ post) = None"
  proof (rule ccontr)
    assume "match_literal pat (p2 @ pat @ post) \<noteq> None"
    then obtain r where eq: "p2 @ pat @ post = pat @ r"
      by (auto simp add: match_literal_None_iff)
    have len: "length pat \<le> length (p2 @ butlast pat)"
      using ne assms(2) by (cases p2) simp_all
    have "(p2 @ butlast pat) @ last pat # post = p2 @ (butlast pat @ [last pat]) @ post"
      by simp
    also have "\<dots> = pat @ r"
      using eq by (simp only: append_butlast_last_id [OF assms(2)])
    finally have e2: "(p2 @ butlast pat) @ last pat # post = pat @ r" .
    have "pat = take (length pat) (pat @ r)"
      by simp
    also have "\<dots> = take (length pat) ((p2 @ butlast pat) @ last pat # post)"
      by (simp only: e2)
    also have "\<dots> = take (length pat) (p2 @ butlast pat)"
      using len by simp
    finally have "p2 @ butlast pat = pat @ drop (length pat) (p2 @ butlast pat)"
      using append_take_drop_id [of "length pat" "p2 @ butlast pat"] by simp
    then have "pre @ butlast pat = p1 @ pat @ drop (length pat) (p2 @ butlast pat)"
      using pre by simp
    then have "contains (pre @ butlast pat) pat"
      unfolding contains_iff by blast
    with assms(1) show False ..
  qed
qed (rule assms(3))


section \<open>The Title token\<close>
























section \<open>Repeated tokens\<close>






section \<open>Where the poster is stored and where the note looks for it\<close>

text \<open>With the default file-name template, a title and an asset path without \<^verbatim>\<open>$\<close>, the embed
  that replaces \<^verbatim>\<open>{{Poster}}\<close> names \<^verbatim>\<open>assetPath/Title.jpg\<close>, the path at which
  \<open>addImageToAssets\<close> is asked to store the image.\<close>

lemma show_nat_no_dollar: "CHR ''$'' \<notin> set (show_nat n)"
proof (induction n rule: show_nat.induct)
  case (1 n)
  have d: "''0123456789'' ! k \<noteq> CHR ''$''" if "k < 10" for k
  proof -
    have "''0123456789'' ! k \<in> set ''0123456789''"
      using that by (intro nth_mem) simp
    then show ?thesis by auto
  qed
  show ?case
  proof (cases "n < 10")
    case True
    then show ?thesis
      using d [of n] by (simp add: show_nat.simps [of n])
  next
    case False
    then show ?thesis
      using 1 d [of "n mod 10"] by (simp add: show_nat.simps [of n])
  qed
qed

lemma number_to_string_no_dollar: "CHR ''$'' \<notin> set (number_to_string x)"
  by (cases x) (simp_all add: number_to_string_def show_nat_no_dollar)

lemma default_poster_embed:
  assumes "fileName (settings st) = ''{{Title}}''"
    and "map_of data ''Title'' = Some title" and "CHR ''$'' \<notin> set title"
    and "CHR ''$'' \<notin> set (assetPath (settings st))"
    and "map_of data ''Poster'' = Some p" and "p \<noteq> []" and "p \<noteq> ''N/A''"
  shows "format_poster st data ''{{Poster}}''
           = ''![['' @ assetPath (settings st) @ ''/'' @ title @ ''.jpg|movie|''
               @ number_to_string (if truthy_num (imageSize (settings st))
                                   then imageSize (settings st) else Num 200) @ '']]''"
proof -
  let ?size = "number_to_string (if truthy_num (imageSize (settings st))
                                   then imageSize (settings st) else Num 200)"
  let ?embed = "''![['' @ assetPath (settings st) @ ''/'' @ title @ ''.jpg|movie|'' @ ?size @ '']]''"
  have n1: "\<not> contains ([] @ butlast ''{{Title}}'') ''{{Title}}''"
    by code_simp
  have "replace_str ([] @ ''{{Title}}'' @ []) ''{{Title}}'' title = [] @ title @ []"
    using n1 _ assms(3) by (rule replace_str_first) simp
  then have r: "replace_str ''{{Title}}'' ''{{Title}}'' title = title"
    by simp
  have n2: "\<not> contains ([] @ butlast ''{{Poster}}'') ''{{Poster}}''"
    by code_simp
  have "CHR ''$'' \<notin> set ?embed"
    using assms(3,4) number_to_string_no_dollar by simp
  with n2 have "replace_str ([] @ ''{{Poster}}'' @ []) ''{{Poster}}'' ?embed = [] @ ?embed @ []"
    by (intro replace_str_first) simp_all
  then have e: "replace_str ''{{Poster}}'' ''{{Poster}}'' ?embed = ?embed"
    by simp
  have "format_poster st data ''{{Poster}}'' = replace_str ''{{Poster}}'' ''{{Poster}}'' ?embed"
    using assms(1,2,5,6,7) by (simp add: format_poster_def Let_def to_string_def r)
  with e show ?thesis
    by simp
qed

lemma stored_poster_path:
  assumes "http w p = Responded r"
    and "create_binary_error w (assetPath (settings st) @ ''/'' @ title @ ''.jpg'') = None"
  shows "binaries (snd (addImageToAssets st (Some p) (title @ ''.jpg'') w))
           = binaries w @ [(assetPath (settings st) @ ''/'' @ title @ ''.jpg'', arrayBuffer r)]"
  using assms by (simp add: addImageToAssets_def requestUrl_def vault_createBinary_def)

text \<open>
  C10. \<open>crawlAndAdd\<close> stores the poster at \<^verbatim>\<open>assetPath/Title.jpg\<close>, joining the strings, and
  \<open>format_poster\<close> builds the path of the embed with \<^verbatim>\<open>replace\<close>, which reads \<^verbatim>\<open>$$\<close> in the
  title as one \<^verbatim>\<open>$\<close>. With the default settings (the file-name template is
  \<^verbatim>\<open>{{Title}}\<close>) and the title \<^verbatim>\<open>Ca$$h\<close>, the image is stored at \<^verbatim>\<open>assets/Ca$$h.jpg\<close> and the
  note starts with an embed of \<^verbatim>\<open>assets/Ca$h.jpg\<close>.
\<close>

theorem poster_paths_differ_for_dollar_title:
  "map fst (binaries (snd (crawlAndAdd (plugin_with_keys ''k'' []) ''Cash''
        (initial_world (http_table
           [(''https://www.omdbapi.com/?apikey=k&t=Cash'',
             movie_response [(''Title'', ''Ca$$h''), (''Poster'', ''http://x/p.jpg'')]),
            (''http://x/p.jpg'', image_response ''JPEG'')]))))) = [''assets/Ca$$h.jpg'']
   \<and> fileName (settings (plugin_with_keys ''k'' [])) = ''{{Title}}''
   \<and> map (\<lambda>note. take 30 (snd note)) (created (snd (crawlAndAdd (plugin_with_keys ''k'' []) ''Cash''
        (initial_world (http_table
           [(''https://www.omdbapi.com/?apikey=k&t=Cash'',
             movie_response [(''Title'', ''Ca$$h''), (''Poster'', ''http://x/p.jpg'')]),
            (''http://x/p.jpg'', image_response ''JPEG'')])))))
       = [''![[assets/Ca$h.jpg|movie|200]]'']"
  by code_simp

end
